theory Spec2Isabelle
  imports Complex_Main
begin

section \<open>Python values, exceptions and numpy primitives\<close>

text \<open>
  The spectroscopy package \<^verbatim>\<open>specCal.py\<close> computes with Python and numpy floats. They are
  modelled as the real numbers: the values of the model are those of the exact arithmetic
  of the formulas the code writes down, without the rounding, overflow or NaN propagation
  of IEEE doubles.  The exception are the float results that the code truncates to a
  number of samples, where rounding decides the result: there the float operations are a
  parameter of the model.  Exceptions are values: a function that may raise returns an
  \<open>outcome\<close>.
\<close>

datatype exn =
    ValueError
  | ZeroDivisionError
  | OverflowError
  | TypeError
  | UnboundLocalError
  | Exception string

datatype 'a outcome = Raises exn | Returns 'a

text \<open>\<^verbatim>\<open>np.min\<close> and \<^verbatim>\<open>np.max\<close> raise \<^verbatim>\<open>ValueError\<close> on an empty array.\<close>

fun np_min :: "real list \<Rightarrow> real outcome" where
  "np_min [] = Raises ValueError"
| "np_min (x # xs) = Returns (fold min xs x)"

fun np_max :: "real list \<Rightarrow> real outcome" where
  "np_max [] = Raises ValueError"
| "np_max (x # xs) = Returns (fold max xs x)"

section \<open>Unit conversion\<close>

definition kb :: real where
  "kb = 138064852 / 10 ^ 31"

definition nA :: real where
  "nA = 6022 * 10 ^ 20"

text \<open>
  \<^verbatim>\<open>n = p * 1.013e5 / kb / T * 1e-6 * c\<close>.  The temperature comes out of a Python dict, so a
  zero temperature raises \<^verbatim>\<open>ZeroDivisionError\<close>.
\<close>

definition mixRatio2numDen :: "real \<Rightarrow> real \<Rightarrow> real \<Rightarrow> real outcome" where
  "mixRatio2numDen c p T =
     (if T = 0 then Raises ZeroDivisionError
      else Returns (p * 101300 / kb / T * (1 / 10 ^ 6) * c))"

section \<open>The data of a DAS computation\<close>

text \<open>
  One entry of \<^verbatim>\<open>gasList\<close> is a dict with the keys \<^verbatim>\<open>gas\<close>, \<^verbatim>\<open>p\<close> (hPa), \<^verbatim>\<open>t\<close> (K),
  \<^verbatim>\<open>l\<close> (cm) and \<^verbatim>\<open>c\<close>; the fields carry the prefix \<open>gp_\<close> because one-letter record
  fields would capture the variables of every statement.  One entry of the returned list
  is a dict with the keys \<^verbatim>\<open>gasParams\<close>, \<^verbatim>\<open>nu\<close> and \<^verbatim>\<open>spectrum\<close>.
\<close>

record gasParams =
  gp_gas :: string
  gp_p :: real
  gp_t :: real
  gp_l :: real
  gp_c :: real

record result =
  res_gasParams :: gasParams
  res_nu :: "real list"
  res_spectrum :: "real list"

text \<open>\<^verbatim>\<open>calDas\<close> returns either a message (a \<^verbatim>\<open>str\<close>) or the list of results.\<close>

datatype dasval = Str string | Results "result list"

section \<open>The line-shape library\<close>

text \<open>
  The HITRAN library \<^verbatim>\<open>hapi\<close> is not part of the repository.  It is a parameter of the
  model: a record of the functions \<^verbatim>\<open>calDas\<close> calls, over the library's table store
  \<open>'s\<close>, which the calls that change it (\<^verbatim>\<open>select\<close>, \<^verbatim>\<open>dropTable\<close>) return updated.
  \<^item> \<open>tableList s\<close>: the names of the tables;
  \<^item> \<open>getColumn s table column\<close>: one column of a table;
  \<^item> \<open>select s table lo hi cut dest\<close>: the call with the conditions
    \<^verbatim>\<open>('AND', ('BETWEEN', 'nu', lo, hi), ('>=', 'sw', cut))\<close> and destination \<open>dest\<close>;
  \<^item> \<open>absorptionCoefficient_X s source grid T p\<close> (and the intensity threshold, for the
    three profiles that are given one): the returned pair of grid and coefficients;
  \<^item> \<open>dropTable s table\<close>.
  Nothing is assumed about what these functions compute.
\<close>

record 's hapi =
  tableList :: "'s \<Rightarrow> string list"
  getColumn :: "'s \<Rightarrow> string \<Rightarrow> string \<Rightarrow> real list"
  select :: "'s \<Rightarrow> string \<Rightarrow> real \<Rightarrow> real \<Rightarrow> real \<Rightarrow> string \<Rightarrow> 's"
  absorptionCoefficient_Voigt ::
    "'s \<Rightarrow> string \<Rightarrow> real list \<Rightarrow> real \<Rightarrow> real \<Rightarrow> real list \<times> real list"
  absorptionCoefficient_HT ::
    "'s \<Rightarrow> string \<Rightarrow> real list \<Rightarrow> real \<Rightarrow> real \<Rightarrow> real \<Rightarrow> real list \<times> real list"
  absorptionCoefficient_Doppler ::
    "'s \<Rightarrow> string \<Rightarrow> real list \<Rightarrow> real \<Rightarrow> real \<Rightarrow> real \<Rightarrow> real list \<times> real list"
  absorptionCoefficient_Lorentz ::
    "'s \<Rightarrow> string \<Rightarrow> real list \<Rightarrow> real \<Rightarrow> real \<Rightarrow> real \<Rightarrow> real list \<times> real list"
  dropTable :: "'s \<Rightarrow> string \<Rightarrow> 's"

section \<open>calDas\<close>

text \<open>
  The \<^verbatim>\<open>if profile == ... elif ... else: raise\<close> chain of \<^verbatim>\<open>calDas\<close>: the library call for
  the four profiles, \<open>None\<close> for every other profile name.
\<close>

definition absorptionCoefficient ::
  "'s hapi \<Rightarrow> string \<Rightarrow> 's \<Rightarrow> real list \<Rightarrow> real \<Rightarrow> real \<Rightarrow> real \<Rightarrow> (real list \<times> real list) option"
where
  "absorptionCoefficient H profile s nu T p iCut =
     (if profile = ''Voigt'' then Some (absorptionCoefficient_Voigt H s ''tmp'' nu T p)
      else if profile = ''HT'' then Some (absorptionCoefficient_HT H s ''tmp'' nu T p iCut)
      else if profile = ''Doppler'' then Some (absorptionCoefficient_Doppler H s ''tmp'' nu T p iCut)
      else if profile = ''Lorentz'' then Some (absorptionCoefficient_Lorentz H s ''tmp'' nu T p iCut)
      else None)"

text \<open>
  The number density \<^verbatim>\<open>n\<close>: assigned under \<^verbatim>\<open>xi_to_nden\<close>, assigned again under
  \<^verbatim>\<open>mden_to_nden\<close>, and left unbound (\<open>None\<close>) when both flags are false.  The pressure
  argument is the pressure in atm, \<^verbatim>\<open>gasParams['p'] / 1.013e3\<close>.
\<close>

definition numberDensity :: "bool \<Rightarrow> bool \<Rightarrow> gasParams \<Rightarrow> real option outcome" where
  "numberDensity xi_to_nden mden_to_nden g =
     (case (if xi_to_nden
            then (case mixRatio2numDen (gp_c g) (gp_p g / 1013) (gp_t g) of
                    Raises e \<Rightarrow> Raises e
                  | Returns n \<Rightarrow> Returns (Some n))
            else Returns None) of
        Raises e \<Rightarrow> Raises e
      | Returns n \<Rightarrow>
          Returns (if mden_to_nden then Some (nA * gp_c g * (1 / 10 ^ 6)) else n))"

text \<open>
  The \<^verbatim>\<open>if mode == 'Absorbance' ... elif mode == 'Transmission'\<close> chain, which has no
  \<^verbatim>\<open>else\<close>.  Reading an unbound \<^verbatim>\<open>n\<close> raises.  The products and \<^verbatim>\<open>np.exp\<close> are those of
  exact arithmetic: the scaled values of the model are the values of the formulas, whereas
  on doubles \<^verbatim>\<open>np.exp\<close> rounds, is \<open>0.0\<close> for arguments below about \<open>-745\<close> and \<open>inf\<close> above
  about \<open>709\<close>.  No theorem of this theory depends on the magnitude of a scaled value;
  where an example shows one, it is the value of exact arithmetic.
\<close>

definition applyMode :: "string \<Rightarrow> real option \<Rightarrow> real \<Rightarrow> real list \<Rightarrow> real list outcome" where
  "applyMode mode n l coeff =
     (if mode = ''Absorbance'' then
        (case n of None \<Rightarrow> Raises UnboundLocalError
         | Some nd \<Rightarrow> Returns (map (\<lambda>k. k * nd * l) coeff))
      else if mode = ''Transmission'' then
        (case n of None \<Rightarrow> Raises UnboundLocalError
         | Some nd \<Rightarrow> Returns (map (\<lambda>a. exp (- a)) (map (\<lambda>k. k * nd * l) coeff)))
      else Returns coeff)"

definition gas_msg :: string where
  "gas_msg = ''Cannot find specified gas.''"

definition range_msg :: string where
  "range_msg = ''Cannot find lines within specified wavenumber range, please download data.''"

definition profile_msg :: string where
  "profile_msg = ''No suitable profile.''"

text \<open>
  One iteration of the loop over \<^verbatim>\<open>gasList\<close>, from the library's store \<open>s\<close> and the current
  value of the local variable \<^verbatim>\<open>nu\<close>.  \<open>Inl\<close> leaves the function (a returned message or a
  raised exception); \<open>Inr\<close> carries the store, the new value of \<^verbatim>\<open>nu\<close> and the appended
  result into the next iteration.
\<close>

definition calDas_body ::
  "'s hapi \<Rightarrow> string \<Rightarrow> string \<Rightarrow> real \<Rightarrow> bool \<Rightarrow> bool \<Rightarrow> 's \<Rightarrow> real list \<Rightarrow> gasParams
     \<Rightarrow> dasval outcome + ('s \<times> real list \<times> result)"
where
  "calDas_body H profile mode iCut xi_to_nden mden_to_nden s nu g =
     (if gp_gas g \<notin> set (tableList H s) then Inl (Returns (Str gas_msg))
      else
        let nuInTable = getColumn H s (gp_gas g) ''nu'' in
        case np_min nu of Raises e \<Rightarrow> Inl (Raises e) | Returns minNu \<Rightarrow>
        case np_min nuInTable of Raises e \<Rightarrow> Inl (Raises e) | Returns minTable \<Rightarrow>
        case np_max nuInTable of Raises e \<Rightarrow> Inl (Raises e) | Returns maxTable \<Rightarrow>
        case np_max nu of Raises e \<Rightarrow> Inl (Raises e) | Returns maxNu \<Rightarrow>
        if minNu < minTable - 1 \<or> minNu > maxTable + 1
           \<or> maxNu > maxTable + 1 \<or> maxNu < minTable - 1
        then Inl (Returns (Str range_msg))
        else
          let s1 = select H s (gp_gas g) minNu maxNu iCut ''tmp'';
              p = gp_p g / 1013;
              t = gp_t g
          in
          case numberDensity xi_to_nden mden_to_nden g of
            Raises e \<Rightarrow> Inl (Raises e)
          | Returns n \<Rightarrow>
          case absorptionCoefficient H profile s1 nu t p iCut of
            None \<Rightarrow> Inl (Raises (Exception profile_msg))
          | Some (nu', coeff) \<Rightarrow>
          case applyMode mode n (gp_l g) coeff of
            Raises e \<Rightarrow> Inl (Raises e)
          | Returns coeff' \<Rightarrow>
              Inr (dropTable H s1 ''tmp'', nu',
                   \<lparr>res_gasParams = g, res_nu = nu', res_spectrum = coeff'\<rparr>))"

fun calDas_loop ::
  "'s hapi \<Rightarrow> string \<Rightarrow> string \<Rightarrow> real \<Rightarrow> bool \<Rightarrow> bool \<Rightarrow> 's \<Rightarrow> real list \<Rightarrow> gasParams list
     \<Rightarrow> result list \<Rightarrow> dasval outcome"
where
  "calDas_loop H profile mode iCut xi_to_nden mden_to_nden s nu [] results =
     Returns (Results results)"
| "calDas_loop H profile mode iCut xi_to_nden mden_to_nden s nu (g # gs) results =
     (case calDas_body H profile mode iCut xi_to_nden mden_to_nden s nu g of
        Inl out \<Rightarrow> out
      | Inr (s', nu', r) \<Rightarrow>
          calDas_loop H profile mode iCut xi_to_nden mden_to_nden s' nu' gs (results @ [r]))"

text \<open>
  \<^verbatim>\<open>calDas(gasList, nu, profile, mode, iCut, xi_to_nden, mden_to_nden)\<close>, run from the
  library store \<open>s\<close>.  The defaults of the source are \<^verbatim>\<open>iCut=1e-30\<close>,
  \<^verbatim>\<open>xi_to_nden=True\<close> and \<^verbatim>\<open>mden_to_nden=False\<close>; \<^verbatim>\<open>etalonCoeff\<close> is never read.
\<close>

definition calDas ::
  "'s hapi \<Rightarrow> 's \<Rightarrow> gasParams list \<Rightarrow> real list \<Rightarrow> string \<Rightarrow> string \<Rightarrow> real \<Rightarrow> bool \<Rightarrow> bool
     \<Rightarrow> dasval outcome"
where
  "calDas H s gasList nu profile mode iCut xi_to_nden mden_to_nden =
     calDas_loop H profile mode iCut xi_to_nden mden_to_nden s nu gasList []"

section \<open>Double-precision results that the code truncates\<close>

text \<open>
  Twice \<^verbatim>\<open>calWms\<close> turns a computed float into a number of samples (\<^verbatim>\<open>int\<close>,
  \<^verbatim>\<open>np.arange\<close>, \<^verbatim>\<open>np.linspace\<close>).  There the rounding of the float operations decides the
  result, so these operations are not modelled by exact arithmetic: their value is a double
  (a real number), an infinity or a NaN, and the operations themselves are a parameter
  of the model,
  \<^item> \<open>f_sub a b\<close>: the float difference \<open>a - b\<close> of two doubles;
  \<^item> \<open>f_div x d\<close>: the float quotient of a float value by a double;
  \<^item> \<open>f_mul x m\<close>: the float product of a float value and a double.
  Nothing is assumed about what they compute.
\<close>

datatype float64 = F64 real | F64_inf | F64_nan

record float_arith =
  f_sub :: "real \<Rightarrow> real \<Rightarrow> float64"
  f_div :: "float64 \<Rightarrow> real \<Rightarrow> float64"
  f_mul :: "float64 \<Rightarrow> real \<Rightarrow> float64"

text \<open>
  \<^verbatim>\<open>int(x)\<close> on a float truncates towards zero, exactly; it raises \<^verbatim>\<open>OverflowError\<close> on
  an infinity and \<^verbatim>\<open>ValueError\<close> on a NaN.
\<close>

definition py_int :: "real \<Rightarrow> int" where
  "py_int x = (if 0 \<le> x then \<lfloor>x\<rfloor> else \<lceil>x\<rceil>)"

fun py_int_float :: "float64 \<Rightarrow> int outcome" where
  "py_int_float (F64 x) = Returns (py_int x)"
| "py_int_float F64_inf = Raises OverflowError"
| "py_int_float F64_nan = Raises ValueError"

section \<open>calWms: the grids and currents it builds\<close>

text \<open>
  \<^verbatim>\<open>np.linspace(start, stop, num)\<close>: \<open>num\<close> evenly spaced samples with both end points,
  the single sample \<open>start\<close> when \<open>num = 1\<close>, and \<^verbatim>\<open>ValueError\<close> for a negative \<open>num\<close>.
  The number of samples, the first sample and, from two samples on, the last sample are
  exact in numpy; the samples in between are those of exact arithmetic.
\<close>

definition linspace :: "real \<Rightarrow> real \<Rightarrow> int \<Rightarrow> real list outcome" where
  "linspace start stop num =
     (if num < 0 then Raises ValueError
      else if num = 1 then Returns [start]
      else Returns (map (\<lambda>i. start + real i * ((stop - start) / real_of_int (num - 1)))
                        [0..<nat num]))"

text \<open>
  The first statements of \<^verbatim>\<open>calWms\<close> and of its \<^verbatim>\<open>'Theoretical'\<close> branch:
  \<^verbatim>\<open>hdNu = np.linspace(minNu, maxNu, int((maxNu - minNu) / dNu * 1024) + 1)\<close>.
  \<open>dNu\<close> defaults to \<^verbatim>\<open>None\<close>, on which the division raises.  \<open>minNu\<close> and \<open>maxNu\<close> are
  numpy floats, so the quotient is computed without exception, also for \<open>dNu = 0\<close>.
\<close>

definition calWms_hdNu :: "float_arith \<Rightarrow> real list \<Rightarrow> real option \<Rightarrow> real list outcome" where
  "calWms_hdNu A nu dNu =
     (case np_max nu of Raises e \<Rightarrow> Raises e | Returns maxNu \<Rightarrow>
      case np_min nu of Raises e \<Rightarrow> Raises e | Returns minNu \<Rightarrow>
      case dNu of None \<Rightarrow> Raises TypeError | Some d \<Rightarrow>
      case py_int_float (f_mul A (f_div A (f_sub A maxNu minNu) d) 1024) of
        Raises e \<Rightarrow> Raises e
      | Returns k \<Rightarrow> linspace minNu maxNu (k + 1))"

text \<open>The laser description read by the \<^verbatim>\<open>'Simulation with parameters'\<close> branch.\<close>

record laserSpec =
  fS :: real
  fMod :: real
  fRamp :: real
  aRamp :: real
  aMod :: real
  tRamp :: real
  tMod :: real
  c2p :: real
  laserDC :: real
  fCut :: real
  phase :: real
  central_wavelength :: real

text \<open>
  The time base and the two currents of the simulation branch:
  \<^verbatim>\<open>nS = fS / fRamp\<close>, \<^verbatim>\<open>ts = np.arange(nS) / fS\<close>,
  \<^verbatim>\<open>currRamp = (np.linspace(0, aRamp, nS) - aRamp * 0.5) / 1000\<close> and
  \<^verbatim>\<open>currMod = 0.5 * aMod * np.sin(2. * np.pi * fMod * ts) / 1000\<close>.
  The entries of the laser description are Python floats: the division raises on a zero
  \<open>fRamp\<close> and is a float quotient otherwise.  \<^verbatim>\<open>np.arange\<close> of a float has its ceiling as
  length and raises \<^verbatim>\<open>ValueError\<close> on an infinity or a NaN; \<^verbatim>\<open>np.linspace\<close> truncates a float
  sample count.  The result is the triple \<open>(ts, currRamp, currMod)\<close>.
\<close>

definition calWms_currents ::
  "float_arith \<Rightarrow> laserSpec \<Rightarrow> (real list \<times> real list \<times> real list) outcome"
where
  "calWms_currents A L =
     (if fRamp L = 0 then Raises ZeroDivisionError
      else
        case f_div A (F64 (fS L)) (fRamp L) of
          F64_inf \<Rightarrow> Raises ValueError
        | F64_nan \<Rightarrow> Raises ValueError
        | F64 nS \<Rightarrow>
            let ts = map (\<lambda>i. real i / fS L) [0..<nat \<lceil>nS\<rceil>] in
            case linspace 0 (aRamp L) (py_int nS) of
              Raises e \<Rightarrow> Raises e
            | Returns ramp \<Rightarrow>
                Returns (ts,
                         map (\<lambda>x. (x - aRamp L * (1 / 2)) / 1000) ramp,
                         map (\<lambda>t. 1 / 2 * aMod L * sin (2 * pi * fMod L * t) / 1000) ts))"

text \<open>
  The sum of two one-dimensional numpy arrays: elementwise for equal lengths, an array of
  length one is broadcast, and any other pair of lengths raises \<^verbatim>\<open>ValueError\<close>.
\<close>

definition np_add :: "real list \<Rightarrow> real list \<Rightarrow> real list outcome" where
  "np_add xs ys =
     (if length xs = length ys then Returns (map (\<lambda>(x, y). x + y) (zip xs ys))
      else if length xs = 1 then Returns (map (\<lambda>y. hd xs + y) ys)
      else if length ys = 1 then Returns (map (\<lambda>x. x + hd ys) xs)
      else Raises ValueError)"

text \<open>
  The waveforms built from the currents:
  \<^verbatim>\<open>nuRamp = currRamp * tRamp * 200 + central_wavelength\<close>,
  \<^verbatim>\<open>nuTotal = nuRamp + currMod * tMod * 200\<close>,
  \<^verbatim>\<open>intensity = (currRamp + currMod) * c2p + laserDC\<close> and
  \<^verbatim>\<open>intensity[intensity < 0] = 0\<close>.  The result is \<open>(nuRamp, nuTotal, current, intensity)\<close>,
  where \<open>current\<close> is the driving current \<^verbatim>\<open>currRamp + currMod\<close>.
\<close>

definition calWms_waveforms ::
  "float_arith \<Rightarrow> laserSpec \<Rightarrow> (real list \<times> real list \<times> real list \<times> real list) outcome"
where
  "calWms_waveforms A L =
     (case calWms_currents A L of
        Raises e \<Rightarrow> Raises e
      | Returns (ts, currRamp, currMod) \<Rightarrow>
          let nuRamp = map (\<lambda>x. x * tRamp L * 200 + central_wavelength L) currRamp in
          case np_add nuRamp (map (\<lambda>x. x * tMod L * 200) currMod) of
            Raises e \<Rightarrow> Raises e
          | Returns nuTotal \<Rightarrow>
          case np_add currRamp currMod of
            Raises e \<Rightarrow> Raises e
          | Returns current \<Rightarrow>
              Returns (nuRamp, nuTotal, current,
                       map (\<lambda>v. if v < 0 then 0 else v)
                           (map (\<lambda>x. x * c2p L + laserDC L) current)))"

section \<open>peakTroughHeight\<close>

text \<open>
  \<^verbatim>\<open>np.mean\<close> of an empty slice is \<open>nan\<close> (with a warning, not an exception), and \<open>nan\<close>
  propagates through the arithmetic of the return statement.
\<close>

datatype npfloat = Num real | NaN

fun nf_add :: "npfloat \<Rightarrow> npfloat \<Rightarrow> npfloat" where
  "nf_add (Num a) (Num b) = Num (a + b)"
| "nf_add _ _ = NaN"

fun nf_sub :: "npfloat \<Rightarrow> npfloat \<Rightarrow> npfloat" where
  "nf_sub (Num a) (Num b) = Num (a - b)"
| "nf_sub _ _ = NaN"

fun nf_mul :: "npfloat \<Rightarrow> npfloat \<Rightarrow> npfloat" where
  "nf_mul (Num a) (Num b) = Num (a * b)"
| "nf_mul _ _ = NaN"

definition np_mean :: "real list \<Rightarrow> npfloat" where
  "np_mean xs = (if xs = [] then NaN else Num (sum_list xs / real (length xs)))"

text \<open>
  A Python slice \<^verbatim>\<open>xs[a:b]\<close> with integer bounds: a negative bound counts from the end,
  and every bound is clipped to the list.
\<close>

definition py_index :: "nat \<Rightarrow> int \<Rightarrow> nat" where
  "py_index n i = (if i < 0 then nat (max (i + int n) 0) else min (nat i) n)"

definition py_slice :: "'a list \<Rightarrow> int \<Rightarrow> int \<Rightarrow> 'a list" where
  "py_slice xs a b =
     (let lo = py_index (length xs) a; hi = py_index (length xs) b
      in take (hi - lo) (drop lo xs))"

text \<open>
  \<^verbatim>\<open>np.argmax\<close> and \<^verbatim>\<open>np.argmin\<close>: the index of the first occurrence of the extremum,
  \<^verbatim>\<open>ValueError\<close> on an empty array.
\<close>

definition first_index :: "real list \<Rightarrow> real \<Rightarrow> nat" where
  "first_index xs v = length (takeWhile (\<lambda>x. x \<noteq> v) xs)"

fun np_argmax :: "real list \<Rightarrow> nat outcome" where
  "np_argmax [] = Raises ValueError"
| "np_argmax (x # xs) = Returns (first_index (x # xs) (fold max xs x))"

fun np_argmin :: "real list \<Rightarrow> nat outcome" where
  "np_argmin [] = Raises ValueError"
| "np_argmin (x # xs) = Returns (first_index (x # xs) (fold min xs x))"

text \<open>
  \<^verbatim>\<open>peakTroughHeight(signal, startIdx, endIdx, twoSideTrough, avgWindow)\<close>; the parameter
  \<^verbatim>\<open>twoSideTrough\<close> is never read.  \<open>avgWindow\<close> is an integer, so \<^verbatim>\<open>int(avgWindow / 2)\<close>
  is the floor division of Python 2.
\<close>

definition peakTroughHeight :: "real list \<Rightarrow> int \<Rightarrow> int \<Rightarrow> int \<Rightarrow> npfloat outcome" where
  "peakTroughHeight signal startIdx endIdx avgWindow =
     (let tmpSignal = py_slice signal startIdx endIdx in
      case np_argmax tmpSignal of Raises e \<Rightarrow> Raises e | Returns peakIdx \<Rightarrow>
      case np_argmin (take peakIdx tmpSignal) of Raises e \<Rightarrow> Raises e | Returns lTroughIdx \<Rightarrow>
      case np_argmin (drop peakIdx tmpSignal) of Raises e \<Rightarrow> Raises e | Returns rTroughIdx \<Rightarrow>
        let hWindow = avgWindow div 2 in
        Returns
          (nf_sub
             (np_mean (py_slice tmpSignal (int peakIdx - hWindow) (int peakIdx + hWindow)))
             (nf_mul (Num (1 / 2))
                (nf_add
                   (np_mean (py_slice tmpSignal (int lTroughIdx - hWindow) (int lTroughIdx + hWindow)))
                   (np_mean (py_slice tmpSignal (int rTroughIdx - hWindow) (int rTroughIdx + hWindow)))))))"

text \<open>
  The specification's wording of the same operation, for comparison: the minimum to the
  right of the peak is located in the window \<^verbatim>\<open>signal[startIdx:endIdx]\<close>, that is at
  \<open>peakIdx + rTroughIdx\<close>, and its mean is taken around that index.
\<close>

definition peakTroughHeight_spec :: "real list \<Rightarrow> int \<Rightarrow> int \<Rightarrow> int \<Rightarrow> npfloat outcome" where
  "peakTroughHeight_spec signal startIdx endIdx avgWindow =
     (let tmpSignal = py_slice signal startIdx endIdx in
      case np_argmax tmpSignal of Raises e \<Rightarrow> Raises e | Returns peakIdx \<Rightarrow>
      case np_argmin (take peakIdx tmpSignal) of Raises e \<Rightarrow> Raises e | Returns lTroughIdx \<Rightarrow>
      case np_argmin (drop peakIdx tmpSignal) of Raises e \<Rightarrow> Raises e | Returns rTroughIdx \<Rightarrow>
        let hWindow = avgWindow div 2;
            rIdx = peakIdx + rTroughIdx
        in
        Returns
          (nf_sub
             (np_mean (py_slice tmpSignal (int peakIdx - hWindow) (int peakIdx + hWindow)))
             (nf_mul (Num (1 / 2))
                (nf_add
                   (np_mean (py_slice tmpSignal (int lTroughIdx - hWindow) (int lTroughIdx + hWindow)))
                   (np_mean (py_slice tmpSignal (int rIdx - hWindow) (int rIdx + hWindow)))))))"

section \<open>Views of a calDas outcome\<close>

text \<open>
  The spectra of an outcome without the \<^verbatim>\<open>gasParams\<close> entries: the pairs of \<^verbatim>\<open>nu\<close> and
  \<^verbatim>\<open>spectrum\<close> of a result list, a message or an exception unchanged.
\<close>

fun das_spectra :: "dasval outcome \<Rightarrow> (string + (real list \<times> real list) list) outcome" where
  "das_spectra (Raises e) = Raises e"
| "das_spectra (Returns (Str m)) = Returns (Inl m)"
| "das_spectra (Returns (Results rs)) = Returns (Inr (map (\<lambda>r. (res_nu r, res_spectrum r)) rs))"

text \<open>A result put in front of the results of an outcome; a message or an exception unchanged.\<close>

definition das_prepend :: "result \<Rightarrow> dasval outcome \<Rightarrow> dasval outcome" where
  "das_prepend r out =
     (case out of Returns (Results rs) \<Rightarrow> Returns (Results (r # rs)) | _ \<Rightarrow> out)"


section \<open>Example inputs\<close>

text \<open>
  A small line-shape library on which the theorems below are instantiated.  Its store is
  the list of table names; the only gas table is \<^verbatim>\<open>NH3\<close>, with lines from 1000 to
  1200 \<^verbatim>\<open>cm^-1\<close>; every profile returns the grid it was given and the coefficient 2 at every
  point.
\<close>

definition hapi_example :: "string list hapi" where
  "hapi_example =
     \<lparr>tableList = (\<lambda>s. s),
      getColumn = (\<lambda>s table column. [1000, 1100, 1200]),
      select = (\<lambda>s table lo hi cut dest. dest # s),
      absorptionCoefficient_Voigt = (\<lambda>s source grid T p. (grid, map (\<lambda>x. 2) grid)),
      absorptionCoefficient_HT = (\<lambda>s source grid T p cut. (grid, map (\<lambda>x. 2) grid)),
      absorptionCoefficient_Doppler = (\<lambda>s source grid T p cut. (grid, map (\<lambda>x. 2) grid)),
      absorptionCoefficient_Lorentz = (\<lambda>s source grid T p cut. (grid, map (\<lambda>x. 2) grid)),
      dropTable = (\<lambda>s table. removeAll table s)\<rparr>"

text \<open>The same library, except that the Voigt profile returns a grid moved by 500 \<^verbatim>\<open>cm^-1\<close>.\<close>

definition hapi_shift :: "string list hapi" where
  "hapi_shift =
     hapi_example\<lparr>absorptionCoefficient_Voigt :=
       (\<lambda>s source grid T p. (map (\<lambda>x. x + 500) grid, map (\<lambda>x. 2) grid))\<rparr>"

text \<open>The gas of the repository's \<^verbatim>\<open>bugTest.py\<close>.\<close>

definition gas_example :: gasParams where
  "gas_example = \<lparr>gp_gas = ''NH3'', gp_p = 990, gp_t = 29315 / 100, gp_l = 2, gp_c = 3 / 10 ^ 7\<rparr>"

text \<open>A laser description with four samples per ramp and a modulation period of four samples.\<close>

definition laser_example :: laserSpec where
  "laser_example =
     \<lparr>fS = 4, fMod = 1, fRamp = 1, aRamp = 1000, aMod = 2000, tRamp = 1, tMod = 1,
      c2p = 1, laserDC = 1, fCut = 1, phase = 0, central_wavelength = 1104\<rparr>"

text \<open>
  Float operations without rounding.  They are the operations of doubles at inputs where
  every exact result is itself a double, as for the dyadic numbers of the examples below.
\<close>

definition exact_arith :: float_arith where
  "exact_arith =
     \<lparr>f_sub = (\<lambda>a b. F64 (a - b)),
      f_div = (\<lambda>x d. case x of
                  F64 a \<Rightarrow> if d = 0 then (if a = 0 then F64_nan else F64_inf) else F64 (a / d)
                | F64_inf \<Rightarrow> F64_inf
                | F64_nan \<Rightarrow> F64_nan),
      f_mul = (\<lambda>x m. case x of
                  F64 a \<Rightarrow> F64 (a * m)
                | F64_inf \<Rightarrow> (if m = 0 then F64_nan else F64_inf)
                | F64_nan \<Rightarrow> F64_nan)\<rparr>"

section \<open>Evaluation and basic facts\<close>

lemmas calDas_eval =
  calDas_def calDas_body_def hapi_example_def hapi_shift_def gas_example_def
  gas_msg_def range_msg_def profile_msg_def numberDensity_def mixRatio2numDen_def kb_def nA_def
  absorptionCoefficient_def applyMode_def

lemma np_min_Min: "xs \<noteq> [] \<Longrightarrow> np_min xs = Returns (Min (set xs))"
proof (cases xs)
  case (Cons a list)
  then show ?thesis using Min.set_eq_fold [of a list] by simp
qed simp

lemma np_max_Max: "xs \<noteq> [] \<Longrightarrow> np_max xs = Returns (Max (set xs))"
proof (cases xs)
  case (Cons a list)
  then show ?thesis using Max.set_eq_fold [of a list] by simp
qed simp







section \<open>The mode chain has no else branch\<close>



section \<open>Coefficient mode does not read concentration or path length\<close>

lemma numberDensity_c_l:
  assumes "gp_p g = gp_p g'" "gp_t g = gp_t g'"
  shows "(\<exists>e. numberDensity xi mden g = Raises e \<and> numberDensity xi mden g' = Raises e)
       \<or> (\<exists>n n'. numberDensity xi mden g = Returns n \<and> numberDensity xi mden g' = Returns n')"
  using assms by (simp add: numberDensity_def mixRatio2numDen_def)

lemma calDas_body_c_l:
  assumes "gp_gas g = gp_gas g'" "gp_p g = gp_p g'" "gp_t g = gp_t g'"
  shows "calDas_body H profile ''Coefficient'' iCut xi mden s nu g' =
     (case calDas_body H profile ''Coefficient'' iCut xi mden s nu g of
        Inl out \<Rightarrow> Inl out
      | Inr (s', nu', r) \<Rightarrow> Inr (s', nu', r\<lparr>res_gasParams := g'\<rparr>))"
proof -
  have b: "\<And>n l coeff. applyMode ''Coefficient'' n l coeff = Returns coeff"
    by (simp add: applyMode_def)
  show ?thesis
    using numberDensity_c_l [OF assms(2,3), of xi mden] assms
    unfolding calDas_body_def b
    by (auto simp: Let_def split: outcome.splits option.splits prod.splits)
qed

lemma calDas_loop_c_l:
  assumes "list_all2 (\<lambda>g g'. gp_gas g = gp_gas g' \<and> gp_p g = gp_p g' \<and> gp_t g = gp_t g') gs gs'"
    and "map (\<lambda>r. (res_nu r, res_spectrum r)) acc = map (\<lambda>r. (res_nu r, res_spectrum r)) acc'"
  shows "das_spectra (calDas_loop H profile ''Coefficient'' iCut xi mden s nu gs acc)
       = das_spectra (calDas_loop H profile ''Coefficient'' iCut xi mden s nu gs' acc')"
  using assms
proof (induction gs gs' arbitrary: s nu acc acc' rule: list_all2_induct)
  case Nil
  then show ?case by simp
next
  case (Cons g gs g' gs')
  from Cons.hyps(1) have eq: "gp_gas g = gp_gas g'" "gp_p g = gp_p g'" "gp_t g = gp_t g'"
    by simp_all
  show ?case
  proof (cases "calDas_body H profile ''Coefficient'' iCut xi mden s nu g")
    case (Inl out)
    then show ?thesis using calDas_body_c_l [OF eq, of H profile iCut xi mden s nu] by simp
  next
    case (Inr t)
    obtain s' nu' r where t: "t = (s', nu', r)" by (cases t) auto
    have b': "calDas_body H profile ''Coefficient'' iCut xi mden s nu g'
                = Inr (s', nu', r\<lparr>res_gasParams := g'\<rparr>)"
      using calDas_body_c_l [OF eq, of H profile iCut xi mden s nu] Inr t by simp
    have "das_spectra (calDas_loop H profile ''Coefficient'' iCut xi mden s' nu' gs (acc @ [r]))
        = das_spectra (calDas_loop H profile ''Coefficient'' iCut xi mden s' nu' gs'
             (acc' @ [r\<lparr>res_gasParams := g'\<rparr>]))"
      by (rule Cons.IH) (simp add: Cons.prems)
    then show ?thesis using Inr t b' by simp
  qed
qed

text \<open>
  Claim C7.  Two gas lists that agree in every field except the concentration \<^verbatim>\<open>c\<close> and
  the path length \<^verbatim>\<open>l\<close> give, in mode \<^verbatim>\<open>'Coefficient'\<close>, the same outcome: the same
  exception, the same message, or result lists with identical grids and spectra.
\<close>

theorem calDas_Coefficient_independent:
  assumes "list_all2 (\<lambda>g g'. gp_gas g = gp_gas g' \<and> gp_p g = gp_p g' \<and> gp_t g = gp_t g')
             gasList gasList'"
  shows "das_spectra (calDas H s gasList nu profile ''Coefficient'' iCut xi mden)
       = das_spectra (calDas H s gasList' nu profile ''Coefficient'' iCut xi mden)"
  unfolding calDas_def by (rule calDas_loop_c_l [OF assms]) simp

theorem calDas_Coefficient_independent_witness:
  "list_all2 (\<lambda>g g'. gp_gas g = gp_gas g' \<and> gp_p g = gp_p g' \<and> gp_t g = gp_t g')
     [gas_example] [gas_example\<lparr>gp_l := 7, gp_c := 1\<rparr>]
   \<and> das_spectra (calDas hapi_example [''NH3''] [gas_example\<lparr>gp_l := 7, gp_c := 1\<rparr>]
        [1103, 1105] ''Voigt'' ''Coefficient'' (1 / 10 ^ 30) True False)
       = das_spectra (calDas hapi_example [''NH3''] [gas_example]
        [1103, 1105] ''Voigt'' ''Coefficient'' (1 / 10 ^ 30) True False)
   \<and> das_spectra (calDas hapi_example [''NH3''] [gas_example]
        [1103, 1105] ''Voigt'' ''Coefficient'' (1 / 10 ^ 30) True False)
       = Returns (Inr [([1103, 1105], [2, 2])])"
proof -
  have h: "list_all2 (\<lambda>g g'. gp_gas g = gp_gas g' \<and> gp_p g = gp_p g' \<and> gp_t g = gp_t g')
     [gas_example] [gas_example\<lparr>gp_l := 7, gp_c := 1\<rparr>]"
    by simp
  have v: "das_spectra (calDas hapi_example [''NH3''] [gas_example]
        [1103, 1105] ''Voigt'' ''Coefficient'' (1 / 10 ^ 30) True False)
       = Returns (Inr [([1103, 1105], [2, 2])])"
    by (simp add: calDas_eval)
  from calDas_Coefficient_independent [OF h, of hapi_example "[''NH3'']" "[1103, 1105]"
      "''Voigt''" "1 / 10 ^ 30" True False]
  show ?thesis using h v by simp
qed

section \<open>The grid of the later gases\<close>

lemma calDas_body_Inl_cases:
  assumes "calDas_body H profile mode iCut xi mden s nu g = Inl out"
  shows "(\<exists>e. out = Raises e) \<or> out = Returns (Str gas_msg) \<or> out = Returns (Str range_msg)"
  using assms unfolding calDas_body_def
  by (auto simp: Let_def split: if_splits outcome.splits option.splits prod.splits)

lemma calDas_loop_acc:
  "calDas_loop H profile mode iCut xi mden s nu gs acc =
     (case calDas_loop H profile mode iCut xi mden s nu gs [] of
        Returns (Results rs) \<Rightarrow> Returns (Results (acc @ rs))
      | out \<Rightarrow> out)"
proof (induction gs arbitrary: s nu acc)
  case Nil
  show ?case by simp
next
  case (Cons g gs)
  show ?case
  proof (cases "calDas_body H profile mode iCut xi mden s nu g")
    case (Inl out)
    then show ?thesis
      using calDas_body_Inl_cases [OF Inl] by auto
  next
    case (Inr t)
    obtain s' nu' r where t: "t = (s', nu', r)" by (cases t) auto
    show ?thesis
      using Inr t Cons.IH [of s' nu' "acc @ [r]"] Cons.IH [of s' nu' "[r]"]
      by (auto split: outcome.splits dasval.splits)
  qed
qed

text \<open>
  Claim C8.  When the iteration for the first gas completes, the remaining gases are
  processed exactly as a call of \<^verbatim>\<open>calDas\<close> on them with the grid \<open>nu'\<close> that the library
  returned for the first gas (and the library's store after that iteration): range check,
  line selection and library call of the second gas all read \<open>nu'\<close>, not the caller's grid.
\<close>

theorem calDas_grid_threaded:
  assumes "calDas_body H profile mode iCut xi mden s nu g = Inr (s', nu', r)"
  shows "calDas H s (g # gs) nu profile mode iCut xi mden
           = das_prepend r (calDas H s' gs nu' profile mode iCut xi mden)
       \<and> res_nu r = nu'
       \<and> (\<exists>lo hi coeff. np_min nu = Returns lo \<and> np_max nu = Returns hi \<and>
            absorptionCoefficient H profile (select H s (gp_gas g) lo hi iCut ''tmp'')
               nu (gp_t g) (gp_p g / 1013) iCut = Some (nu', coeff))"
proof (intro conjI)
  show "calDas H s (g # gs) nu profile mode iCut xi mden
           = das_prepend r (calDas H s' gs nu' profile mode iCut xi mden)"
    unfolding calDas_def das_prepend_def
    using assms calDas_loop_acc [of H profile mode iCut xi mden s' nu' gs "[r]"]
    by (simp split: outcome.splits dasval.splits)
  show "res_nu r = nu'"
    using assms unfolding calDas_body_def
    by (auto simp: Let_def split: if_splits outcome.splits option.splits prod.splits)
  show "\<exists>lo hi coeff. np_min nu = Returns lo \<and> np_max nu = Returns hi \<and>
            absorptionCoefficient H profile (select H s (gp_gas g) lo hi iCut ''tmp'')
               nu (gp_t g) (gp_p g / 1013) iCut = Some (nu', coeff)"
    using assms unfolding calDas_body_def
    by (auto simp: Let_def split: if_splits outcome.splits option.splits prod.splits)
qed

theorem calDas_grid_threaded_witness:
  "calDas_body hapi_shift ''Voigt'' ''Absorbance'' (1 / 10 ^ 30) True False
      [''NH3''] [1103, 1105] gas_example
     = Inr ([''NH3''], [1603, 1605],
            \<lparr>res_gasParams = gas_example, res_nu = [1603, 1605],
             res_spectrum = [540000000000000000000000 / 18397141529,
                             540000000000000000000000 / 18397141529]\<rparr>)
   \<and> calDas hapi_shift [''NH3''] [gas_example, gas_example] [1103, 1105] ''Voigt'' ''Absorbance''
        (1 / 10 ^ 30) True False
     = calDas hapi_shift [''NH3''] [gas_example] [1603, 1605] ''Voigt'' ''Absorbance''
        (1 / 10 ^ 30) True False
   \<and> calDas hapi_shift [''NH3''] [gas_example] [1603, 1605] ''Voigt'' ''Absorbance''
        (1 / 10 ^ 30) True False = Returns (Str range_msg)
   \<and> (\<exists>r. calDas hapi_shift [''NH3''] [gas_example] [1103, 1105] ''Voigt'' ''Absorbance''
        (1 / 10 ^ 30) True False = Returns (Results [r]))"
proof -
  have h: "calDas_body hapi_shift ''Voigt'' ''Absorbance'' (1 / 10 ^ 30) True False
      [''NH3''] [1103, 1105] gas_example
     = Inr ([''NH3''], [1603, 1605],
            \<lparr>res_gasParams = gas_example, res_nu = [1603, 1605],
             res_spectrum = [540000000000000000000000 / 18397141529,
                             540000000000000000000000 / 18397141529]\<rparr>)"
    by (simp add: calDas_eval)
  have v: "calDas hapi_shift [''NH3''] [gas_example] [1603, 1605] ''Voigt'' ''Absorbance''
        (1 / 10 ^ 30) True False = Returns (Str range_msg)"
    by (simp add: calDas_eval)
  have w: "\<exists>r. calDas hapi_shift [''NH3''] [gas_example] [1103, 1105] ''Voigt'' ''Absorbance''
        (1 / 10 ^ 30) True False = Returns (Results [r])"
    by (simp add: calDas_eval)
  from calDas_grid_threaded [OF h, of "[gas_example]"]
  show ?thesis using h v w by (simp add: das_prepend_def)
qed

section \<open>peakTroughHeight\<close>

lemmas pth_eval =
  peakTroughHeight_def peakTroughHeight_spec_def py_slice_def py_index_def
  first_index_def np_mean_def Let_def

text \<open>
  Claim C10.  When the maximum of \<^verbatim>\<open>signal[startIdx:endIdx]\<close> is at position 0 of that
  window, the left-trough search is \<^verbatim>\<open>np.argmin\<close> of an empty slice and the call raises
  \<^verbatim>\<open>ValueError\<close>; hence a call that returns a value had its maximum at a position
  greater than 0.
\<close>

theorem peakTroughHeight_peak_first:
  "(np_argmax (py_slice signal startIdx endIdx) = Returns 0 \<longrightarrow>
      peakTroughHeight signal startIdx endIdx avgWindow = Raises ValueError)
   \<and> (peakTroughHeight signal startIdx endIdx avgWindow = Returns v \<longrightarrow>
      (\<exists>k. np_argmax (py_slice signal startIdx endIdx) = Returns k \<and> 0 < k))"
proof (intro conjI impI)
  assume "np_argmax (py_slice signal startIdx endIdx) = Returns 0"
  then show "peakTroughHeight signal startIdx endIdx avgWindow = Raises ValueError"
    by (simp add: peakTroughHeight_def Let_def)
next
  assume r: "peakTroughHeight signal startIdx endIdx avgWindow = Returns v"
  then obtain k where k: "np_argmax (py_slice signal startIdx endIdx) = Returns k"
    by (auto simp: peakTroughHeight_def Let_def split: outcome.splits)
  have "k \<noteq> 0"
  proof
    assume "k = 0"
    with k r show False by (simp add: peakTroughHeight_def Let_def)
  qed
  with k show "\<exists>k. np_argmax (py_slice signal startIdx endIdx) = Returns k \<and> 0 < k"
    by auto
qed

theorem peakTroughHeight_peak_first_witness:
  "np_argmax (py_slice [9, 3, 1] 0 3) = Returns 0
   \<and> peakTroughHeight [9, 3, 1] 0 3 2 = Raises ValueError
   \<and> peakTroughHeight [3, 0, 3, 9, 3, 3, 3, -6, 3] 0 9 2 = Returns (Num (9 / 4))
   \<and> np_argmax (py_slice [3, 0, 3, 9, 3, 3, 3, -6, 3] 0 9) = Returns 3"
proof -
  have h1: "np_argmax (py_slice [9, 3, 1] 0 3) = Returns 0"
    by (simp add: pth_eval)
  have h2: "peakTroughHeight [3, 0, 3, 9, 3, 3, 3, -6, 3] 0 9 2 = Returns (Num (9 / 4))"
    by (simp add: pth_eval)
  have h3: "np_argmax (py_slice [3, 0, 3, 9, 3, 3, 3, -6, 3] 0 9) = Returns 3"
    by (simp add: pth_eval)
  from peakTroughHeight_peak_first [of "[9, 3, 1]" 0 3 2] h1
  have r: "peakTroughHeight [9, 3, 1] 0 3 2 = Raises ValueError" by blast
  from peakTroughHeight_peak_first [of "[3, 0, 3, 9, 3, 3, 3, -6, 3]" 0 9 2 "Num (9 / 4)"] h2
  have "\<exists>k. np_argmax (py_slice [3, 0, 3, 9, 3, 3, 3, -6, 3] 0 9) = Returns k \<and> 0 < k"
    by blast
  with h1 h2 h3 r show ?thesis by simp
qed

text \<open>
  Claim C5.  The code takes the mean for the right trough around \<open>rTroughIdx\<close>, the
  position of the minimum inside \<^verbatim>\<open>tmpSignal[peakIdx:]\<close>, and not around
  \<open>peakIdx + rTroughIdx\<close>, its position in the window.  On the signal below (peak at
  index 3, left minimum at index 1, right minimum at index 7, all averaging windows of two
  samples in bounds) the code returns 2.25, where the stated formula gives 6.
\<close>

theorem peakTroughHeight_right_trough_offset:
  "peakTroughHeight [3, 0, 3, 9, 3, 3, 3, -6, 3] 0 9 2 = Returns (Num (9 / 4))
   \<and> peakTroughHeight_spec [3, 0, 3, 9, 3, 3, 3, -6, 3] 0 9 2 = Returns (Num 6)"
  by (simp add: pth_eval)

section \<open>The high-resolution grid of the theoretical WMS method\<close>

lemma linspace_one: "linspace a b 1 = Returns [a]"
  by (simp add: linspace_def)

lemma linspace_many:
  assumes "0 \<le> num" "num \<noteq> 1"
  shows "linspace a b num =
     Returns (map (\<lambda>i. a + real i * ((b - a) / real_of_int (num - 1))) [0..<nat num])"
  using assms by (simp add: linspace_def)

lemma linspace_props:
  assumes "0 \<le> num"
  shows "\<exists>xs. linspace a b num = Returns xs \<and> length xs = nat num
           \<and> (0 < num \<longrightarrow> hd xs = a)
           \<and> (2 \<le> num \<longrightarrow> last xs = b
                \<and> (\<forall>i<nat num. xs ! i = a + real i * ((b - a) / real_of_int (num - 1))))"
proof (cases "num = 1")
  case True
  then show ?thesis by (simp add: linspace_one)
next
  case False
  let ?f = "\<lambda>i. a + real i * ((b - a) / real_of_int (num - 1))"
  let ?xs = "map ?f [0..<nat num]"
  have eq: "linspace a b num = Returns ?xs" by (rule linspace_many [OF assms False])
  have len: "length ?xs = nat num" by simp
  have hd: "0 < num \<longrightarrow> hd ?xs = a"
    by (auto simp: hd_map upt_conv_Cons)
  have lst: "last ?xs = b" if "2 \<le> num"
  proof -
    have ne: "[0..<nat num] \<noteq> []" using that by simp
    have "last ?xs = ?f (nat num - 1)"
      using ne by (simp add: last_map)
    moreover have "real (nat num - 1) = real_of_int (num - 1)"
      using that by (simp add: of_nat_diff)
    moreover have "real_of_int (num - 1) \<noteq> 0" using that by simp
    ultimately show ?thesis by simp
  qed
  have nth: "\<forall>i<nat num. ?xs ! i = ?f i" by simp
  show ?thesis using eq len hd lst nth by blast
qed

lemma py_int_nonneg: "0 \<le> x \<Longrightarrow> py_int x = \<lfloor>x\<rfloor> \<and> 0 \<le> py_int x"
  by (simp add: py_int_def)

text \<open>
  Claim C3, as the code has it.  For a non-empty grid and a modulation depth \<open>dNu > 0\<close> the
  auxiliary grid has \<open>int((max - min) / dNu * 1024) + 1\<close> points, where \<^verbatim>\<open>int\<close> truncates
  (here: the floor, the argument being non-negative) and does not round; it starts at
  \<open>min(grid)\<close> and, when it has at least two points, ends at \<open>max(grid)\<close>.
\<close>

text \<open>
  Claim C3, as the code has it.  Let \<open>q\<close> be the value of \<^verbatim>\<open>(maxNu - minNu) / dNu * 1024\<close> as
  the float operations compute it.  For a non-empty grid, whenever \<open>q\<close> is a double and
  non-negative (as it is for \<open>dNu > 0\<close>, unless it overflows), the auxiliary grid has exactly
  \<open>int(q) + 1\<close> points, where \<^verbatim>\<open>int\<close> truncates the computed double (here: its floor) and
  does not round; the grid starts at \<open>min(grid)\<close> and, when it has at least two points, ends
  at \<open>max(grid)\<close>.  The statement holds for every behaviour of the float operations.
\<close>

theorem calWms_hdNu_points:
  assumes "nu \<noteq> []"
    and "f_mul A (f_div A (f_sub A (Max (set nu)) (Min (set nu))) dNu) 1024 = F64 q"
    and "0 \<le> q"
  shows "\<exists>hdNu. calWms_hdNu A nu (Some dNu) = Returns hdNu
           \<and> length hdNu = nat \<lfloor>q\<rfloor> + 1
           \<and> hd hdNu = Min (set nu)
           \<and> (2 \<le> length hdNu \<longrightarrow> last hdNu = Max (set nu))"
proof -
  let ?lo = "Min (set nu)" and ?hi = "Max (set nu)"
  have pi: "py_int q = \<lfloor>q\<rfloor>" "0 \<le> py_int q"
    using py_int_nonneg [OF assms(3)] by blast+
  have eq: "calWms_hdNu A nu (Some dNu) = linspace ?lo ?hi (py_int q + 1)"
    using assms(1,2) by (simp add: calWms_hdNu_def np_min_Min np_max_Max)
  have n0: "0 \<le> py_int q + 1" using pi(2) by simp
  from linspace_props [OF n0, of ?lo ?hi] obtain xs where
    xs: "linspace ?lo ?hi (py_int q + 1) = Returns xs" "length xs = nat (py_int q + 1)"
        "0 < py_int q + 1 \<longrightarrow> hd xs = ?lo" "2 \<le> py_int q + 1 \<longrightarrow> last xs = ?hi"
    by blast
  have len: "length xs = nat \<lfloor>q\<rfloor> + 1"
    using xs(2) pi by (simp add: nat_add_distrib)
  have h: "hd xs = ?lo" using xs(3) pi(2) by simp
  have l: "2 \<le> length xs \<longrightarrow> last xs = ?hi" using xs(4) xs(2) by auto
  show ?thesis using eq xs(1) len h l by auto
qed

text \<open>An infinite quotient raises \<^verbatim>\<open>OverflowError\<close>, a NaN raises \<^verbatim>\<open>ValueError\<close>.\<close>

lemma calWms_hdNu_not_finite:
  assumes "nu \<noteq> []"
  shows "(f_mul A (f_div A (f_sub A (Max (set nu)) (Min (set nu))) dNu) 1024 = F64_inf
            \<longrightarrow> calWms_hdNu A nu (Some dNu) = Raises OverflowError)
       \<and> (f_mul A (f_div A (f_sub A (Max (set nu)) (Min (set nu))) dNu) 1024 = F64_nan
            \<longrightarrow> calWms_hdNu A nu (Some dNu) = Raises ValueError)"
  using assms by (simp add: calWms_hdNu_def np_min_Min np_max_Max)

text \<open>
  The grid from 1103 to \<open>1103 + 7/4096\<close> with \<open>dNu = 1\<close>: the difference \<open>7/4096\<close>, the
  quotient and the product \<open>1.75\<close> are doubles, so no float operation rounds.
\<close>

theorem calWms_hdNu_points_witness:
  "[1103, 4517895 / 4096 :: real] \<noteq> []
   \<and> f_mul exact_arith (f_div exact_arith (f_sub exact_arith (4517895 / 4096) 1103) 1) 1024
       = F64 (7 / 4)
   \<and> calWms_hdNu exact_arith [1103, 4517895 / 4096] (Some 1) = Returns [1103, 4517895 / 4096]"
proof -
  have q: "f_mul exact_arith
             (f_div exact_arith
                (f_sub exact_arith (Max (set [1103, 4517895 / 4096]))
                   (Min (set [1103, 4517895 / 4096]))) 1) 1024 = F64 (7 / 4)"
    by (simp add: exact_arith_def)
  have v: "calWms_hdNu exact_arith [1103, 4517895 / 4096] (Some 1)
             = Returns [1103, 4517895 / 4096]"
    by (simp add: calWms_hdNu_def exact_arith_def linspace_def py_int_def upt_rec)
  have n: "[1103, 4517895 / 4096 :: real] \<noteq> []" by simp
  have p: "(0::real) \<le> 7 / 4" by simp
  from calWms_hdNu_points [OF n q p] v q
  show ?thesis by simp
qed

text \<open>
  The claim with \<open>round\<close> fails there: the quotient is 1.75, the code builds 2 points, and
  \<open>round(1.75) + 1\<close> is 3.
\<close>

theorem calWms_hdNu_round_counterexample:
  "calWms_hdNu exact_arith [1103, 4517895 / 4096] (Some 1) = Returns [1103, 4517895 / 4096]
   \<and> length [1103, 4517895 / 4096 :: real] = 2
   \<and> round ((4517895 / 4096 - 1103) / 1 * 1024 :: real) + 1 = 3"
  by (simp add: calWms_hdNu_def exact_arith_def linspace_def py_int_def round_def upt_rec)

section \<open>The driving current of the simulation method\<close>

lemma np_add_same_length:
  assumes "length xs = length ys"
  shows "\<exists>zs. np_add xs ys = Returns zs \<and> length zs = length xs
           \<and> (\<forall>i<length xs. zs ! i = xs ! i + ys ! i)"
  using assms by (simp add: np_add_def)

lemma np_add_mismatch:
  assumes "length xs \<noteq> length ys" "length xs \<noteq> 1" "length ys \<noteq> 1"
  shows "np_add xs ys = Raises ValueError"
  using assms by (simp add: np_add_def)

lemma calWms_currents_arrays:
  assumes "fRamp L \<noteq> 0" and "f_div A (F64 (fS L)) (fRamp L) = F64 nS" and "0 \<le> nS"
  shows "\<exists>ramp. calWms_currents A L =
           Returns (map (\<lambda>i. real i / fS L) [0..<nat \<lceil>nS\<rceil>],
                    map (\<lambda>x. (x - aRamp L * (1 / 2)) / 1000) ramp,
                    map (\<lambda>t. 1 / 2 * aMod L * sin (2 * pi * fMod L * t) / 1000)
                        (map (\<lambda>i. real i / fS L) [0..<nat \<lceil>nS\<rceil>]))
         \<and> length ramp = nat \<lfloor>nS\<rfloor>
         \<and> (length ramp = 1 \<longrightarrow> ramp = [0])
         \<and> (2 \<le> length ramp \<longrightarrow> hd ramp = 0 \<and> last ramp = aRamp L
               \<and> (\<forall>i<length ramp. ramp ! i = real i * (aRamp L / real (length ramp - 1))))"
proof -
  have pi: "py_int nS = \<lfloor>nS\<rfloor>" "0 \<le> py_int nS"
    using py_int_nonneg [OF assms(3)] by blast+
  from linspace_props [OF pi(2), of 0 "aRamp L"] obtain ramp where
    ramp: "linspace 0 (aRamp L) (py_int nS) = Returns ramp"
          "length ramp = nat (py_int nS)"
          "0 < py_int nS \<longrightarrow> hd ramp = 0"
          "2 \<le> py_int nS \<longrightarrow> last ramp = aRamp L
             \<and> (\<forall>i<nat (py_int nS). ramp ! i
                   = 0 + real i * ((aRamp L - 0) / real_of_int (py_int nS - 1)))"
    by blast
  have eq: "calWms_currents A L =
           Returns (map (\<lambda>i. real i / fS L) [0..<nat \<lceil>nS\<rceil>],
                    map (\<lambda>x. (x - aRamp L * (1 / 2)) / 1000) ramp,
                    map (\<lambda>t. 1 / 2 * aMod L * sin (2 * pi * fMod L * t) / 1000)
                        (map (\<lambda>i. real i / fS L) [0..<nat \<lceil>nS\<rceil>]))"
    using assms(1,2) ramp(1) by (simp add: calWms_currents_def Let_def)
  have len: "length ramp = nat \<lfloor>nS\<rfloor>" using ramp(2) pi(1) by simp
  have one: "ramp = [0]" if "length ramp = 1"
  proof -
    have "0 < py_int nS" using that ramp(2) by simp
    then have "hd ramp = 0" using ramp(3) by simp
    with that show ?thesis by (cases ramp) auto
  qed
  have two: "hd ramp = 0 \<and> last ramp = aRamp L
               \<and> (\<forall>i<length ramp. ramp ! i = real i * (aRamp L / real (length ramp - 1)))"
    if "2 \<le> length ramp"
  proof -
    have n2: "2 \<le> py_int nS" using that ramp(2) by simp
    have r1: "real (length ramp - 1) = real_of_int (py_int nS - 1)"
      using ramp(2) n2 by (simp add: of_nat_diff)
    show ?thesis using ramp(3,4) n2 ramp(2) r1 by simp
  qed
  show ?thesis using eq len one two by blast
qed

text \<open>
  Claim C4, as the code has it.  Let \<open>nS\<close> be the float quotient \<^verbatim>\<open>fS / fRamp\<close>, for a
  non-zero \<open>fRamp\<close>, and let it be a non-negative double.  Then the currents are built
  without error and
  \<^item> the modulation current has \<open>ceil(nS)\<close> samples, sample \<open>i\<close> at the time \<open>t = i / fS\<close>
    being \<open>0.5 * (aMod / 1000) * sin (2 * pi * fMod * t)\<close>: \<open>aMod\<close> is divided by 1000 and is the
    peak-to-peak value of the sinusoid;
  \<^item> the ramp current has \<open>floor(nS)\<close> samples; a single sample is \<open>- 0.5 * aRamp / 1000\<close>,
    and two or more samples run linearly from \<open>- 0.5 * aRamp / 1000\<close> to
    \<open>0.5 * aRamp / 1000\<close>;
  \<^item> when \<open>nS\<close> is an integer \<open>N \<ge> 2\<close>, the driving current \<^verbatim>\<open>currRamp + currMod\<close> has \<open>N\<close>
    samples, each the sum of the ramp and the modulation current at that sample;
  \<^item> when \<open>nS \<ge> 2\<close> is not an integer, the two arrays differ in length and the
    construction of the waveforms from them raises \<^verbatim>\<open>ValueError\<close>.
\<close>

theorem calWms_currents_shape:
  assumes "fRamp L \<noteq> 0" and "f_div A (F64 (fS L)) (fRamp L) = F64 nS" and "0 \<le> nS"
  shows "\<exists>ts currRamp currMod.
           calWms_currents A L = Returns (ts, currRamp, currMod)
         \<and> length ts = nat \<lceil>nS\<rceil> \<and> length currMod = nat \<lceil>nS\<rceil>
         \<and> length currRamp = nat \<lfloor>nS\<rfloor>
         \<and> (\<forall>i<length ts. ts ! i = real i / fS L
               \<and> currMod ! i = 1 / 2 * (aMod L / 1000) * sin (2 * pi * fMod L * (real i / fS L)))
         \<and> (length currRamp = 1 \<longrightarrow> currRamp = [- (1 / 2 * (aRamp L / 1000))])
         \<and> (2 \<le> length currRamp \<longrightarrow>
               hd currRamp = - (1 / 2 * (aRamp L / 1000))
             \<and> last currRamp = 1 / 2 * (aRamp L / 1000)
             \<and> (\<forall>i<length currRamp.
                   currRamp ! i =
                     (real i * (aRamp L / real (length currRamp - 1)) - 1 / 2 * aRamp L) / 1000))
         \<and> (\<forall>N. nS = real N \<and> 2 \<le> N \<longrightarrow>
               (\<exists>nuRamp nuTotal current intensity.
                   calWms_waveforms A L = Returns (nuRamp, nuTotal, current, intensity)
                 \<and> np_add currRamp currMod = Returns current
                 \<and> length current = N
                 \<and> (\<forall>i<N. current ! i =
                       (real i * (aRamp L / real (N - 1)) - 1 / 2 * aRamp L) / 1000
                       + 1 / 2 * (aMod L / 1000) * sin (2 * pi * fMod L * (real i / fS L)))))
         \<and> (2 \<le> \<lfloor>nS\<rfloor> \<and> \<lfloor>nS\<rfloor> < \<lceil>nS\<rceil> \<longrightarrow> calWms_waveforms A L = Raises ValueError)"
proof -
  from calWms_currents_arrays [OF assms] obtain ramp where
    eq: "calWms_currents A L =
           Returns (map (\<lambda>i. real i / fS L) [0..<nat \<lceil>nS\<rceil>],
                    map (\<lambda>x. (x - aRamp L * (1 / 2)) / 1000) ramp,
                    map (\<lambda>t. 1 / 2 * aMod L * sin (2 * pi * fMod L * t) / 1000)
                        (map (\<lambda>i. real i / fS L) [0..<nat \<lceil>nS\<rceil>]))"
    and len: "length ramp = nat \<lfloor>nS\<rfloor>"
    and one: "length ramp = 1 \<longrightarrow> ramp = [0]"
    and two: "2 \<le> length ramp \<longrightarrow> hd ramp = 0 \<and> last ramp = aRamp L
               \<and> (\<forall>i<length ramp. ramp ! i = real i * (aRamp L / real (length ramp - 1)))"
    by blast
  let ?ts = "map (\<lambda>i. real i / fS L) [0..<nat \<lceil>nS\<rceil>]"
  let ?cr = "map (\<lambda>x. (x - aRamp L * (1 / 2)) / 1000) ramp"
  let ?cm = "map (\<lambda>t. 1 / 2 * aMod L * sin (2 * pi * fMod L * t) / 1000) ?ts"
  have a: "length ?ts = nat \<lceil>nS\<rceil>" "length ?cm = nat \<lceil>nS\<rceil>" by simp_all
  have b: "length ?cr = nat \<lfloor>nS\<rfloor>" using len by simp
  have c: "\<forall>i<length ?ts. ?ts ! i = real i / fS L
               \<and> ?cm ! i = 1 / 2 * (aMod L / 1000) * sin (2 * pi * fMod L * (real i / fS L))"
    by simp
  have d: "length ?cr = 1 \<longrightarrow> ?cr = [- (1 / 2 * (aRamp L / 1000))]"
    using one by auto
  have e: "hd ?cr = - (1 / 2 * (aRamp L / 1000))
             \<and> last ?cr = 1 / 2 * (aRamp L / 1000)
             \<and> (\<forall>i<length ?cr.
                   ?cr ! i = (real i * (aRamp L / real (length ?cr - 1)) - 1 / 2 * aRamp L) / 1000)"
    if t: "2 \<le> length ?cr"
  proof -
    have ne: "ramp \<noteq> []" using t by auto
    have t': "2 \<le> length ramp" using t by simp
    have "hd ?cr = - (1 / 2 * (aRamp L / 1000))" using ne two t' by (simp add: hd_map)
    moreover have "last ?cr = 1 / 2 * (aRamp L / 1000)" using ne two t' by (simp add: last_map)
    moreover have "\<forall>i<length ?cr.
                   ?cr ! i = (real i * (aRamp L / real (length ?cr - 1)) - 1 / 2 * aRamp L) / 1000"
      using two t' by simp
    ultimately show ?thesis by blast
  qed
  have f: "\<exists>nuRamp nuTotal current intensity.
                   calWms_waveforms A L = Returns (nuRamp, nuTotal, current, intensity)
                 \<and> np_add ?cr ?cm = Returns current
                 \<and> length current = N
                 \<and> (\<forall>i<N. current ! i =
                       (real i * (aRamp L / real (N - 1)) - 1 / 2 * aRamp L) / 1000
                       + 1 / 2 * (aMod L / 1000) * sin (2 * pi * fMod L * (real i / fS L)))"
    if h: "nS = real N \<and> 2 \<le> N" for N
  proof -
    have lr: "length ?cr = N" using b h by simp
    have lm: "length ?cm = N" using h by simp
    let ?nr = "map (\<lambda>x. x * tRamp L * 200 + central_wavelength L) ?cr"
    let ?md = "map (\<lambda>x. x * tMod L * 200) ?cm"
    have "length ?nr = length ?md" using lr lm by simp
    from np_add_same_length [OF this] obtain nuTotal where
      nt: "np_add ?nr ?md = Returns nuTotal" by blast
    have "length ?cr = length ?cm" using lr lm by simp
    from np_add_same_length [OF this] obtain current where
      cu: "np_add ?cr ?cm = Returns current" "length current = length ?cr"
          "\<forall>i<length ?cr. current ! i = ?cr ! i + ?cm ! i"
      by blast
    have w: "calWms_waveforms A L =
               Returns (?nr, nuTotal, current,
                        map (\<lambda>v. if v < 0 then 0 else v)
                            (map (\<lambda>x. x * c2p L + laserDC L) current))"
      unfolding calWms_waveforms_def eq using nt cu(1) by (simp add: Let_def)
    have t: "2 \<le> length ?cr" using lr h by simp
    have val: "current ! i =
                       (real i * (aRamp L / real (N - 1)) - 1 / 2 * aRamp L) / 1000
                       + 1 / 2 * (aMod L / 1000) * sin (2 * pi * fMod L * (real i / fS L))"
      if "i < N" for i
    proof -
      have i1: "i < length ?cr" using that lr by simp
      have i2: "i < length ?ts" using that lm by simp
      have x1: "current ! i = ?cr ! i + ?cm ! i" using cu(3) i1 by blast
      have "?cr ! i = (real i * (aRamp L / real (length ?cr - 1)) - 1 / 2 * aRamp L) / 1000"
        using e [OF t] i1 by blast
      then have x2: "?cr ! i = (real i * (aRamp L / real (N - 1)) - 1 / 2 * aRamp L) / 1000"
        unfolding lr .
      have x3: "?cm ! i = 1 / 2 * (aMod L / 1000) * sin (2 * pi * fMod L * (real i / fS L))"
        using c i2 by blast
      show ?thesis by (simp only: x1 x2 x3)
    qed
    show ?thesis using w cu(1) cu(2) lr val by blast
  qed
  have g: "calWms_waveforms A L = Raises ValueError"
    if h: "2 \<le> \<lfloor>nS\<rfloor> \<and> \<lfloor>nS\<rfloor> < \<lceil>nS\<rceil>"
  proof -
    let ?nr = "map (\<lambda>x. x * tRamp L * 200 + central_wavelength L) ?cr"
    let ?md = "map (\<lambda>x. x * tMod L * 200) ?cm"
    have l1: "length ?nr = nat \<lfloor>nS\<rfloor>" using b by simp
    have l2: "length ?md = nat \<lceil>nS\<rceil>" by simp
    have "np_add ?nr ?md = Raises ValueError"
    proof (rule np_add_mismatch)
      show "length ?nr \<noteq> length ?md" using l1 l2 h by linarith
      show "length ?nr \<noteq> 1" using l1 h by linarith
      show "length ?md \<noteq> 1" using l2 h by linarith
    qed
    then show ?thesis unfolding calWms_waveforms_def eq by (simp add: Let_def)
  qed
  show ?thesis
    apply (rule exI [of _ ?ts], rule exI [of _ ?cr], rule exI [of _ ?cm])
    using eq a b c d e f g by blast
qed

theorem calWms_currents_shape_witness:
  "fRamp laser_example \<noteq> 0
   \<and> f_div exact_arith (F64 (fS laser_example)) (fRamp laser_example) = F64 4
   \<and> calWms_currents exact_arith laser_example
     = Returns ([0, 1 / 4, 1 / 2, 3 / 4], [- (1 / 2), - (1 / 6), 1 / 6, 1 / 2], [0, 1, 0, - 1])
   \<and> np_add [- (1 / 2), - (1 / 6), 1 / 6, 1 / 2] [0, 1, 0, - 1]
     = Returns [- (1 / 2), 5 / 6, 1 / 6, - (1 / 2)]
   \<and> f_div exact_arith (F64 (fS (laser_example\<lparr>fS := 9, fRamp := 2\<rparr>)))
        (fRamp (laser_example\<lparr>fS := 9, fRamp := 2\<rparr>)) = F64 (9 / 2)
   \<and> calWms_waveforms exact_arith (laser_example\<lparr>fS := 9, fRamp := 2\<rparr>) = Raises ValueError"
proof -
  have h1: "fRamp laser_example \<noteq> 0" by (simp add: laser_example_def)
  have h2: "f_div exact_arith (F64 (fS laser_example)) (fRamp laser_example) = F64 4"
    by (simp add: laser_example_def exact_arith_def)
  have v: "calWms_currents exact_arith laser_example
     = Returns ([0, 1 / 4, 1 / 2, 3 / 4], [- (1 / 2), - (1 / 6), 1 / 6, 1 / 2], [0, 1, 0, - 1])"
    using sin_3over2_pi
    by (simp add: calWms_currents_def laser_example_def exact_arith_def linspace_def py_int_def
          upt_rec Let_def)
  have s: "np_add [- (1 / 2), - (1 / 6), 1 / 6, 1 / 2] [0, 1, 0, - 1]
     = Returns [- (1 / 2), 5 / 6, 1 / 6, - (1 / 2 :: real)]"
    by (simp add: np_add_def)
  have g1: "fRamp (laser_example\<lparr>fS := 9, fRamp := 2\<rparr>) \<noteq> 0" by simp
  have g2: "f_div exact_arith (F64 (fS (laser_example\<lparr>fS := 9, fRamp := 2\<rparr>)))
        (fRamp (laser_example\<lparr>fS := 9, fRamp := 2\<rparr>)) = F64 (9 / 2)"
    by (simp add: exact_arith_def)
  have fl: "\<lfloor>9 / 2 :: real\<rfloor> = 4" "\<lceil>9 / 2 :: real\<rceil> = 5" by linarith+
  from calWms_currents_shape [OF g1 g2] fl
  have r: "calWms_waveforms exact_arith (laser_example\<lparr>fS := 9, fRamp := 2\<rparr>) = Raises ValueError"
    by auto
  from calWms_currents_shape [OF h1 h2] h1 h2 v s g2 r
  show ?thesis by simp
qed

text \<open>
  The claim's formula \<open>(aMod / 1000) * sin (2 * pi * fMod * t)\<close> fails: with \<open>aMod = 2000\<close>,
  \<open>fMod = 1\<close> and the sample time \<open>1 / 4\<close> the code's modulation current is 1, the formula
  gives 2.
\<close>

theorem calWms_currents_counterexample:
  "calWms_currents exact_arith laser_example
     = Returns ([0, 1 / 4, 1 / 2, 3 / 4], [- (1 / 2), - (1 / 6), 1 / 6, 1 / 2], [0, 1, 0, - 1])
   \<and> aMod laser_example / 1000 * sin (2 * pi * fMod laser_example * (1 / 4)) = 2"
  using sin_3over2_pi
  by (simp add: calWms_currents_def laser_example_def exact_arith_def linspace_def py_int_def
        upt_rec Let_def)

section \<open>The range check\<close>

lemma Min_le_Max_list: "xs \<noteq> [] \<Longrightarrow> Min (set xs) \<le> Max (set (xs::real list))"
proof -
  assume "xs \<noteq> []"
  then obtain x where x: "x \<in> set xs" by (cases xs) auto
  have "Min (set xs) \<le> x" using x by simp
  moreover have "x \<le> Max (set xs)" using x by simp
  ultimately show ?thesis by simp
qed

lemma calDas_body_range:
  assumes "gp_gas g \<in> set (tableList H s)" and "nu \<noteq> []"
    and "getColumn H s (gp_gas g) ''nu'' \<noteq> []"
  shows "calDas_body H profile mode iCut xi mden s nu g = Inl (Returns (Str range_msg))
     \<longleftrightarrow> \<not> (Min (set (getColumn H s (gp_gas g) ''nu'')) - 1 \<le> Min (set nu)
            \<and> Max (set nu) \<le> Max (set (getColumn H s (gp_gas g) ''nu'')) + 1)"
proof -
  let ?T = "getColumn H s (gp_gas g) ''nu''"
  define lo where "lo = Min (set nu)"
  define hi where "hi = Max (set nu)"
  define tlo where "tlo = Min (set ?T)"
  define thi where "thi = Max (set ?T)"
  have m: "lo \<le> hi" "tlo \<le> thi"
    using assms Min_le_Max_list unfolding lo_def hi_def tlo_def thi_def by blast+
  have np: "np_min nu = Returns lo" "np_max nu = Returns hi"
           "np_min ?T = Returns tlo" "np_max ?T = Returns thi"
    using assms(2,3) by (simp_all add: np_min_Min np_max_Max lo_def hi_def tlo_def thi_def)
  have c: "(lo < tlo - 1 \<or> lo > thi + 1 \<or> hi > thi + 1 \<or> hi < tlo - 1)
             \<longleftrightarrow> \<not> (tlo - 1 \<le> lo \<and> hi \<le> thi + 1)"
    using m by linarith
  have "calDas_body H profile mode iCut xi mden s nu g = Inl (Returns (Str range_msg))
     \<longleftrightarrow> (lo < tlo - 1 \<or> lo > thi + 1 \<or> hi > thi + 1 \<or> hi < tlo - 1)"
    unfolding calDas_body_def using assms(1)
    by (auto simp: Let_def np split: outcome.splits option.splits prod.splits)
  then show ?thesis
    unfolding c unfolding lo_def hi_def tlo_def thi_def .
qed

lemma calDas_body_in_range:
  assumes "gp_gas g \<in> set (tableList H s)" and "nu \<noteq> []"
    and "getColumn H s (gp_gas g) ''nu'' \<noteq> []"
    and "Min (set (getColumn H s (gp_gas g) ''nu'')) - 1 \<le> Min (set nu)"
    and "Max (set nu) \<le> Max (set (getColumn H s (gp_gas g) ''nu'')) + 1"
  shows "calDas_body H profile mode iCut xi mden s nu g =
     (case numberDensity xi mden g of
        Raises e \<Rightarrow> Inl (Raises e)
      | Returns n \<Rightarrow>
        (case absorptionCoefficient H profile
                (select H s (gp_gas g) (Min (set nu)) (Max (set nu)) iCut ''tmp'')
                nu (gp_t g) (gp_p g / 1013) iCut of
           None \<Rightarrow> Inl (Raises (Exception profile_msg))
         | Some (nu', coeff) \<Rightarrow>
           (case applyMode mode n (gp_l g) coeff of
              Raises e \<Rightarrow> Inl (Raises e)
            | Returns coeff' \<Rightarrow>
                Inr (dropTable H (select H s (gp_gas g) (Min (set nu)) (Max (set nu)) iCut ''tmp'')
                       ''tmp'', nu',
                     \<lparr>res_gasParams = g, res_nu = nu', res_spectrum = coeff'\<rparr>))))"
proof -
  let ?T = "getColumn H s (gp_gas g) ''nu''"
  have m: "Min (set nu) \<le> Max (set nu)" "Min (set ?T) \<le> Max (set ?T)"
    using assms Min_le_Max_list by blast+
  define lo where "lo = Min (set nu)"
  define hi where "hi = Max (set nu)"
  define tlo where "tlo = Min (set ?T)"
  define thi where "thi = Max (set ?T)"
  have np: "np_min nu = Returns lo" "np_max nu = Returns hi"
           "np_min ?T = Returns tlo" "np_max ?T = Returns thi"
    using assms(2,3) by (simp_all add: np_min_Min np_max_Max lo_def hi_def tlo_def thi_def)
  have c: "\<not> (lo < tlo - 1 \<or> lo > thi + 1 \<or> hi > thi + 1 \<or> hi < tlo - 1)"
    using assms(4,5) m unfolding lo_def hi_def tlo_def thi_def by linarith
  show ?thesis
    unfolding calDas_body_def lo_def [symmetric] hi_def [symmetric] using assms(1) c
    by (simp add: Let_def np)
qed






section \<open>Unsupported profiles\<close>

lemma absorptionCoefficient_unsupported:
  assumes "profile \<notin> {''Voigt'', ''HT'', ''Doppler'', ''Lorentz''}"
  shows "absorptionCoefficient H profile s nu T p iCut = None"
  using assms by (simp add: absorptionCoefficient_def)

lemma calDas_body_unsupported:
  assumes "profile \<notin> {''Voigt'', ''HT'', ''Doppler'', ''Lorentz''}"
  shows "\<exists>out. calDas_body H profile mode iCut xi mden s nu g = Inl out"
  unfolding calDas_body_def absorptionCoefficient_unsupported [OF assms]
  by (simp add: Let_def split: outcome.splits)

lemma numberDensity_Returns:
  assumes "xi \<longrightarrow> gp_t g \<noteq> 0"
  shows "\<exists>n. numberDensity xi mden g = Returns n"
  using assms by (simp add: numberDensity_def mixRatio2numDen_def)


lemma calDas_body_unsupported_value:
  assumes "profile \<notin> {''Voigt'', ''HT'', ''Doppler'', ''Lorentz''}"
  shows "calDas_body H profile mode iCut xi mden s nu g =
     Inl (if gp_gas g \<notin> set (tableList H s) then Returns (Str gas_msg)
          else if nu = [] \<or> getColumn H s (gp_gas g) ''nu'' = [] then Raises ValueError
          else if \<not> (Min (set (getColumn H s (gp_gas g) ''nu'')) - 1 \<le> Min (set nu)
                       \<and> Max (set nu) \<le> Max (set (getColumn H s (gp_gas g) ''nu'')) + 1)
               then Returns (Str range_msg)
          else if xi \<and> gp_t g = 0 then Raises ZeroDivisionError
          else Raises (Exception profile_msg))"
proof (cases "gp_gas g \<in> set (tableList H s)")
  case False
  then show ?thesis by (simp add: calDas_body_def)
next
  case known: True
  show ?thesis
  proof (cases "nu = [] \<or> getColumn H s (gp_gas g) ''nu'' = []")
    case True
    then show ?thesis using known
      by (cases nu; cases "getColumn H s (gp_gas g) ''nu''")
         (auto simp: calDas_body_def Let_def)
  next
    case False
    then have ne: "nu \<noteq> []" "getColumn H s (gp_gas g) ''nu'' \<noteq> []" by blast+
    show ?thesis
    proof (cases "Min (set (getColumn H s (gp_gas g) ''nu'')) - 1 \<le> Min (set nu)
                       \<and> Max (set nu) \<le> Max (set (getColumn H s (gp_gas g) ''nu'')) + 1")
      case out: False
      then have "calDas_body H profile mode iCut xi mden s nu g = Inl (Returns (Str range_msg))"
        using calDas_body_range [OF known ne, of profile mode iCut xi mden] by blast
      then show ?thesis using known ne out by simp
    next
      case within: True
      then have in1: "Min (set (getColumn H s (gp_gas g) ''nu'')) - 1 \<le> Min (set nu)"
        and in2: "Max (set nu) \<le> Max (set (getColumn H s (gp_gas g) ''nu'')) + 1"
        by blast+
      note body = calDas_body_in_range [OF known ne in1 in2, of profile mode iCut xi mden]
      show ?thesis
      proof (cases "xi \<and> gp_t g = 0")
        case True
        then have "numberDensity xi mden g = Raises ZeroDivisionError"
          by (simp add: numberDensity_def mixRatio2numDen_def)
        then show ?thesis using body known ne within True by simp
      next
        case False
        then have "xi \<longrightarrow> gp_t g \<noteq> 0" by blast
        from numberDensity_Returns [OF this, of mden] obtain n where
          "numberDensity xi mden g = Returns n" by blast
        then show ?thesis
          using body known ne within False absorptionCoefficient_unsupported [OF assms, of H]
          by simp
      qed
    qed
  qed
qed

lemma calDas_body_coefficient_functions:
  assumes "profile \<notin> {''Voigt'', ''HT'', ''Doppler'', ''Lorentz''}"
  shows "calDas_body
           (H\<lparr>absorptionCoefficient_Voigt := fV, absorptionCoefficient_HT := fH,
              absorptionCoefficient_Doppler := fD, absorptionCoefficient_Lorentz := fL\<rparr>)
           profile mode iCut xi mden s nu g
       = calDas_body H profile mode iCut xi mden s nu g"
  unfolding calDas_body_unsupported_value [OF assms] by simp

text \<open>
  Claim C6, as the code has it.  For a profile name that is not one of the four, an empty
  gas list returns the empty result list (the profile is never examined).  A non-empty gas
  list never returns results; the call ends in the iteration of the first gas, with the
  message for an unknown gas, else \<^verbatim>\<open>ValueError\<close> for an empty grid or table column, else
  the range message for a grid out of range, else \<^verbatim>\<open>ZeroDivisionError\<close> for a zero
  temperature under \<^verbatim>\<open>xi_to_nden\<close>, and else with the exception
  \<^verbatim>\<open>Exception('No suitable profile.')\<close>, which escapes to the caller.  No line shape is
  evaluated: the outcome is the same for every choice of the library's four coefficient
  functions.
\<close>

theorem calDas_unsupported_profile:
  assumes "profile \<notin> {''Voigt'', ''HT'', ''Doppler'', ''Lorentz''}"
  shows "calDas H s [] nu profile mode iCut xi mden = Returns (Results [])
       \<and> calDas H s (g # gs) nu profile mode iCut xi mden =
           (if gp_gas g \<notin> set (tableList H s) then Returns (Str gas_msg)
            else if nu = [] \<or> getColumn H s (gp_gas g) ''nu'' = [] then Raises ValueError
            else if \<not> (Min (set (getColumn H s (gp_gas g) ''nu'')) - 1 \<le> Min (set nu)
                         \<and> Max (set nu) \<le> Max (set (getColumn H s (gp_gas g) ''nu'')) + 1)
                 then Returns (Str range_msg)
            else if xi \<and> gp_t g = 0 then Raises ZeroDivisionError
            else Raises (Exception profile_msg))
       \<and> calDas H s (g # gs) nu profile mode iCut xi mden \<noteq> Returns (Results rs)
       \<and> calDas
           (H\<lparr>absorptionCoefficient_Voigt := fV, absorptionCoefficient_HT := fH,
              absorptionCoefficient_Doppler := fD, absorptionCoefficient_Lorentz := fL\<rparr>)
           s (g # gs) nu profile mode iCut xi mden
         = calDas H s (g # gs) nu profile mode iCut xi mden"
proof (intro conjI)
  note body = calDas_body_unsupported_value [OF assms, of H mode iCut xi mden s nu g]
  show "calDas H s [] nu profile mode iCut xi mden = Returns (Results [])"
    by (simp add: calDas_def)
  show val: "calDas H s (g # gs) nu profile mode iCut xi mden =
           (if gp_gas g \<notin> set (tableList H s) then Returns (Str gas_msg)
            else if nu = [] \<or> getColumn H s (gp_gas g) ''nu'' = [] then Raises ValueError
            else if \<not> (Min (set (getColumn H s (gp_gas g) ''nu'')) - 1 \<le> Min (set nu)
                         \<and> Max (set nu) \<le> Max (set (getColumn H s (gp_gas g) ''nu'')) + 1)
                 then Returns (Str range_msg)
            else if xi \<and> gp_t g = 0 then Raises ZeroDivisionError
            else Raises (Exception profile_msg))"
    unfolding calDas_def by (simp only: calDas_loop.simps body sum.case)
  show "calDas H s (g # gs) nu profile mode iCut xi mden \<noteq> Returns (Results rs)"
    unfolding val by simp
  show "calDas
           (H\<lparr>absorptionCoefficient_Voigt := fV, absorptionCoefficient_HT := fH,
              absorptionCoefficient_Doppler := fD, absorptionCoefficient_Lorentz := fL\<rparr>)
           s (g # gs) nu profile mode iCut xi mden
         = calDas H s (g # gs) nu profile mode iCut xi mden"
    unfolding calDas_def
    by (simp only: calDas_loop.simps calDas_body_coefficient_functions [OF assms] body sum.case)
qed

theorem calDas_unsupported_profile_witness:
  "''Gauss'' \<notin> {''Voigt'', ''HT'', ''Doppler'', ''Lorentz''}
   \<and> calDas hapi_example [''NH3''] [gas_example, gas_example] [1103, 1105] ''Gauss''
       ''Absorbance'' (1 / 10 ^ 30) True False = Raises (Exception ''No suitable profile.'')
   \<and> calDas hapi_example [''NH3''] [] [1103, 1105] ''Gauss''
       ''Absorbance'' (1 / 10 ^ 30) True False = Returns (Results [])"
proof -
  have h: "''Gauss'' \<notin> {''Voigt'', ''HT'', ''Doppler'', ''Lorentz''}" by simp
  have k: "gp_gas gas_example \<in> set (tableList hapi_example [''NH3''])"
    "getColumn hapi_example [''NH3''] (gp_gas gas_example) ''nu'' = [1000, 1100, 1200]"
    "gp_t gas_example \<noteq> 0"
    by (simp_all add: hapi_example_def gas_example_def)
  from calDas_unsupported_profile [OF h, of hapi_example "[''NH3'']" "[1103, 1105]"
      "''Absorbance''" "1 / 10 ^ 30" True False gas_example "[gas_example]"]
  show ?thesis using h k by (simp add: profile_msg_def)
qed

text \<open>
  The claim fails as stated: the unsupported profile is not reported as a returned
  failure value but as an exception; for the empty gas list nothing is reported; and an
  unknown first gas is reported instead of the profile.
\<close>

theorem calDas_unsupported_profile_counterexample:
  "calDas hapi_example [''NH3''] [gas_example] [1103, 1105] ''Gauss''
       ''Absorbance'' (1 / 10 ^ 30) True False = Raises (Exception ''No suitable profile.'')
   \<and> calDas hapi_example [''NH3''] [] [1103, 1105] ''Gauss''
       ''Absorbance'' (1 / 10 ^ 30) True False = Returns (Results [])
   \<and> calDas hapi_example [''NH3''] [gas_example\<lparr>gp_gas := ''XYZ''\<rparr>] [1103, 1105] ''Gauss''
       ''Absorbance'' (1 / 10 ^ 30) True False = Returns (Str ''Cannot find specified gas.'')"
  by (simp add: calDas_eval)

end
